theory Spec2Isabelle
  imports Main
begin

section \<open>Stat snapshots as JavaScript objects\<close>

text \<open>
  A stat snapshot is the object handed out by \<^verbatim>\<open>fs.stat\<close> / \<^verbatim>\<open>fs.lstat\<close>: a flat object
  whose own properties hold numbers and \<^verbatim>\<open>Date\<close> objects.  A \<^verbatim>\<open>Date\<close> carries its time
  value in milliseconds, or no time value at all (an invalid date).  After a round trip
  through JSON a date has become the string of its ISO-8601 rendering, an invalid date
  has become \<^verbatim>\<open>null\<close>; \<open>IsoStr t\<close> stands for the string \<^verbatim>\<open>new Date(t).toISOString()\<close>.
  Properties are kept in insertion order, which is the order \<^verbatim>\<open>JSON.stringify\<close> writes them.
\<close>

datatype jsval = Null | Num int | IsoStr int | Date "int option"

type_synonym jsobj = "(string \<times> jsval) list"

text \<open>
  The text written by \<^verbatim>\<open>JSON.stringify\<close> for one property value: the literal \<^verbatim>\<open>null\<close>, a
  number, or the quoted ISO string of a time value.  \<^verbatim>\<open>Date.prototype.toJSON\<close> yields the
  ISO string of a valid date and \<^verbatim>\<open>null\<close> for an invalid one.  The text of an object is the
  sequence of its keys with the text of their values; two such texts are the same string
  exactly when the sequences are equal.
\<close>

datatype jtok = TNull | TNum int | TIso int

type_synonym jsontext = "(string \<times> jtok) list"

fun stringify_val :: "jsval \<Rightarrow> jtok" where
  "stringify_val Null = TNull"
| "stringify_val (Num n) = TNum n"
| "stringify_val (IsoStr t) = TIso t"
| "stringify_val (Date (Some t)) = TIso t"
| "stringify_val (Date None) = TNull"

fun parse_val :: "jtok \<Rightarrow> jsval" where
  "parse_val TNull = Null"
| "parse_val (TNum n) = Num n"
| "parse_val (TIso t) = IsoStr t"

definition JSON_stringify :: "jsobj \<Rightarrow> jsontext" where
  "JSON_stringify obj = map (\<lambda>(k, v). (k, stringify_val v)) obj"

definition JSON_parse :: "jsontext \<Rightarrow> jsobj" where
  "JSON_parse txt = map (\<lambda>(k, t). (k, parse_val t)) txt"

text \<open>\<^verbatim>\<open>extendr.dereferenceJSON(x)\<close> is \<^verbatim>\<open>JSON.parse(JSON.stringify(x))\<close>: a fresh object.\<close>

definition dereferenceJSON :: "jsobj \<Rightarrow> jsobj" where
  "dereferenceJSON obj = JSON_parse (JSON_stringify obj)"

text \<open>Reading a property (\<open>None\<close> is \<^verbatim>\<open>undefined\<close>), the test \<^verbatim>\<open>o.k != null\<close>, and \<^verbatim>\<open>delete o.k\<close>.\<close>

definition get_prop :: "jsobj \<Rightarrow> string \<Rightarrow> jsval option" where
  "get_prop obj k = map_of obj k"

definition not_nullish :: "jsval option \<Rightarrow> bool" where
  "not_nullish v = (v \<noteq> None \<and> v \<noteq> Some Null)"

definition delete_prop :: "string \<Rightarrow> jsobj \<Rightarrow> jsobj" where
  "delete_prop k obj = filter (\<lambda>(k', v). k' \<noteq> k) obj"

definition strip_prop :: "string \<Rightarrow> jsobj \<Rightarrow> jsobj" where
  "strip_prop k obj = (if not_nullish (get_prop obj k) then delete_prop k obj else obj)"

subsection \<open>The comparator (static \<^verbatim>\<open>Watcher.statChanged\<close>)\<close>

definition statChanged :: "jsobj option \<Rightarrow> jsobj option \<Rightarrow> bool" where
  "statChanged old current =
     (let hasOld = (old \<noteq> None); hasCurrent = (current \<noteq> None) in
      if hasOld \<noteq> hasCurrent then True
      else if hasOld \<and> hasCurrent then
        (let old1 = dereferenceJSON (the old);
             current1 = dereferenceJSON (the current);
             old2 = strip_prop ''ctime'' (strip_prop ''atime'' old1);
             current2 = strip_prop ''ctime'' (strip_prop ''atime'' current1)
         in if JSON_stringify old2 \<noteq> JSON_stringify current2 then True else False)
      else False)"

subsection \<open>The \<^verbatim>\<open>fs.Stats\<close> object\<close>

text \<open>
  What a \<^verbatim>\<open>fs.Stats\<close> object tells about a path: integers, and four valid dates given by
  their time values.  The kind of the entry (file, directory, ...) is not a property of
  its own: \<^verbatim>\<open>isDirectory()\<close> reads it off the file type bits of \<open>mode\<close>.
\<close>

record stats =
  dev :: int
  mode :: int
  nlink :: int
  uid :: int
  gid :: int
  rdev :: int
  blksize :: int
  ino :: int
  size_st :: int
  blocks :: int
  atime :: int
  mtime :: int
  ctime :: int
  birthtime :: int

text \<open>
  The own properties of the object, which are what \<^verbatim>\<open>JSON.stringify\<close> sees, depend on the
  Node version that runs the code.  Before Node 8.1 they are the ten numbers and the four
  dates (\<open>stat_obj\<close>).  From Node 8.1 on the object also carries each time as a number of
  milliseconds, \<^verbatim>\<open>atimeMs\<close>, \<^verbatim>\<open>mtimeMs\<close>, \<^verbatim>\<open>ctimeMs\<close>, \<^verbatim>\<open>birthtimeMs\<close> (\<open>stat_obj_ms\<close>).
  From Node 22 on the four dates are accessors of the prototype and no longer own
  properties (\<open>stat_obj_lazy\<close>).
\<close>

definition stat_obj :: "stats \<Rightarrow> jsobj" where
  "stat_obj s =
     [(''dev'', Num (dev s)), (''mode'', Num (mode s)), (''nlink'', Num (nlink s)),
      (''uid'', Num (uid s)), (''gid'', Num (gid s)), (''rdev'', Num (rdev s)),
      (''blksize'', Num (blksize s)), (''ino'', Num (ino s)), (''size'', Num (size_st s)),
      (''blocks'', Num (blocks s)), (''atime'', Date (Some (atime s))),
      (''mtime'', Date (Some (mtime s))), (''ctime'', Date (Some (ctime s))),
      (''birthtime'', Date (Some (birthtime s)))]"

text \<open>\<^verbatim>\<open>stat.isDirectory()\<close>: the file type bits \<^verbatim>\<open>S_IFMT = 0o170000\<close> equal \<^verbatim>\<open>S_IFDIR = 0o040000\<close>.\<close>

definition isDirectory_stat :: "stats \<Rightarrow> bool" where
  "isDirectory_stat s = ((mode s div 4096) mod 16 = 4)"



text \<open>A stat held by a watcher, as the argument object of \<open>statChanged\<close>, in a given layout.\<close>

definition stat_arg :: "(stats \<Rightarrow> jsobj) \<Rightarrow> stats option \<Rightarrow> jsobj option" where
  "stat_arg layout so = map_option layout so"

subsection \<open>Comparing two objects property by property\<close>





subsection \<open>The comparator on objects in a store\<close>

text \<open>
  The arguments of \<^verbatim>\<open>statChanged\<close> are references to objects.  The store is the list of
  all objects allocated so far, a reference is an index into it, \<open>None\<close> is \<^verbatim>\<open>null\<close>.
  \<^verbatim>\<open>dereferenceJSON\<close> allocates a fresh object, the local variables \<^verbatim>\<open>old\<close> and
  \<^verbatim>\<open>current\<close> are rebound to the fresh references, and \<^verbatim>\<open>delete\<close> updates the object a
  reference points to, in place.
\<close>

type_synonym objstore = "jsobj list"

definition obj_at :: "objstore \<Rightarrow> nat \<Rightarrow> jsobj" where
  "obj_at h a = (if a < length h then h ! a else [])"

definition alloc :: "objstore \<Rightarrow> jsobj \<Rightarrow> nat \<times> objstore" where
  "alloc h obj = (length h, h @ [obj])"

definition store_delete :: "string \<Rightarrow> nat \<Rightarrow> objstore \<Rightarrow> objstore" where
  "store_delete k a h = h[a := delete_prop k (obj_at h a)]"

definition store_strip :: "string \<Rightarrow> nat \<Rightarrow> objstore \<Rightarrow> objstore" where
  "store_strip k a h =
     (if not_nullish (get_prop (obj_at h a) k) then store_delete k a h else h)"

definition statChanged_store :: "objstore \<Rightarrow> nat option \<Rightarrow> nat option \<Rightarrow> bool \<times> objstore" where
  "statChanged_store h old current =
     (let hasOld = (old \<noteq> None); hasCurrent = (current \<noteq> None) in
      if hasOld \<noteq> hasCurrent then (True, h)
      else if hasOld \<and> hasCurrent then
        (let (old1, h1) = alloc h (dereferenceJSON (obj_at h (the old)));
             (current1, h2) = alloc h1 (dereferenceJSON (obj_at h1 (the current)));
             h3 = store_strip ''atime'' old1 h2;
             h4 = store_strip ''ctime'' old1 h3;
             h5 = store_strip ''atime'' current1 h4;
             h6 = store_strip ''ctime'' current1 h5
         in if JSON_stringify (obj_at h6 old1) \<noteq> JSON_stringify (obj_at h6 current1)
            then (True, h6) else (False, h6))
      else (False, h))"

section \<open>The watcher\<close>

type_synonym ref = nat

datatype wstate = Pending | Active | Closed | Deleted

datatype child = Reserved | Child ref

datatype jsarg = AStr string | AChild child

fun to_key :: "jsarg \<Rightarrow> string" where
  "to_key (AStr k) = k"
| "to_key (AChild (Child r)) = ''[object Object]''"
| "to_key (AChild Reserved) = ''false''"

text \<open>
  The five event names, the two log levels in use, and the three change types.  A log
  message is kept as the place it is written at together with the values interpolated
  into its text; the text itself is given with each constructor.
\<close>

datatype evname = EvLog | EvChange | EvClose | EvWatching | EvError

datatype level = Debug | Warn

datatype change_type = Update | Create | Delete

datatype logmsg =
    AddedListener bool evname "string option"  \<comment> \<open>\<^verbatim>\<open>added listener: ${mode} ${eventName} for ${path}\<close>\<close>
  | IgnoreMsg string bool                      \<comment> \<open>\<^verbatim>\<open>ignore: ${path} yes|no\<close>\<close>
  | WatchFired "string option"                 \<comment> \<open>\<^verbatim>\<open>watch fired on: ${path}\<close>\<close>
  | WatchEvaluating "string option"            \<comment> \<open>\<^verbatim>\<open>watch evaluating on: ${path}\<close>\<close>
  | DeterminedDelete "string option"           \<comment> \<open>\<^verbatim>\<open>watch determined delete: ${path}\<close>\<close>
  | DeterminedReplaced "string option"         \<comment> \<open>\<^verbatim>\<open>watch determined replaced: ${path}\<close>\<close>
  | DeterminedSame "string option"             \<comment> \<open>\<^verbatim>\<open>watch determined same: ${path}\<close>\<close>
  | DeterminedUpdate "string option"           \<comment> \<open>\<^verbatim>\<open>watch determined update: ${path}\<close>\<close>
  | Forwarding string "string option"          \<comment> \<open>\<^verbatim>\<open>Forwarding extensive change detection to child: ${rel} via: ${path}\<close>\<close>
  | IgnoredDelete string "string option"       \<comment> \<open>\<^verbatim>\<open>watch ignored delete: ${full} via: ${path}\<close>\<close>
  | DeterminedDeleteVia string "string option" \<comment> \<open>\<^verbatim>\<open>watch determined delete: ${full} via: ${path}\<close>\<close>
  | IgnoredCreate string "string option"       \<comment> \<open>\<^verbatim>\<open>watch ignored create: ${full} via: ${path}\<close>\<close>
  | DeterminedCreate string "string option"    \<comment> \<open>\<^verbatim>\<open>watch determined create: ${full} via: ${path}\<close>\<close>
  | CloseMsg "string option"                   \<comment> \<open>\<^verbatim>\<open>close: ${path}\<close>\<close>
  | FailedToWatch "string option"              \<comment> \<open>\<^verbatim>\<open>Failed to watch the path ${path}\<close>\<close>
  | WatchInit "string option"                  \<comment> \<open>\<^verbatim>\<open>watch init: ${path}\<close>\<close>
  | WatchDone "string option" "string option"  \<comment> \<open>\<^verbatim>\<open>watch done: ${path} ${err}\<close>\<close>

datatype event =
    Log level logmsg
  | Change change_type "string option" "stats option" "stats option"
  | CloseEv "string option"
  | Watching "string option" ref
  | ErrorEv string

fun ev_name :: "event \<Rightarrow> evname" where
  "ev_name (Log l m) = EvLog"
| "ev_name (Change t p c q) = EvChange"
| "ev_name (CloseEv r) = EvClose"
| "ev_name (Watching e w) = EvWatching"
| "ev_name (ErrorEv e) = EvError"

datatype cont =
    UserNext nat
  | CreatedChild ref string nat
  | ScanFile ref
  | PhaseADone nat

datatype handler =
    RegistryClose "string option"
  | ChildClose ref string
  | ChildLog ref
  | ChildChange ref string string
  | Callback cont
  | UserListener nat

record listener =
  l_event :: evname
  l_once :: bool
  l_handler :: handler

record config =
  c_path :: "string option"
  c_catchupDelay :: nat
  c_preferredMethods :: "string list"
  c_followLinks :: bool

record watcher =
  w_path :: "string option"
  w_stat :: "stats option"
  w_fswatcher :: "nat option"
  w_children :: "(string \<times> child) list"
  w_state :: wstate
  w_method :: "string option"
  w_listenerTasks :: "nat option"
  w_listenerTimeout :: "nat option"
  w_config :: config
  w_listeners :: "listener list"

definition new_Watcher :: watcher where
  "new_Watcher = \<lparr>w_path = None, w_stat = None, w_fswatcher = None, w_children = [],
     w_state = Pending, w_method = None, w_listenerTasks = None, w_listenerTimeout = None,
     w_config = \<lparr>c_path = None, c_catchupDelay = 2 * 1000, c_preferredMethods = [''watch'', ''watchFile''],
       c_followLinks = True\<rparr>,
     w_listeners = []\<rparr>"

datatype donecb = DefaultNext ref | TaskComplete nat

record batch =
  b_node :: ref
  b_previousStat :: "stats option"
  b_currentStat :: "stats option"
  b_method :: "string option"
  b_done :: "donecb list"
  b_outstanding :: nat
  b_finished :: bool

datatype statk = KWatch | KListener nat

datatype pending =
    PTimer ref
  | PExists ref nat
  | PStat ref statk
  | PContinue nat
  | PReaddir ref nat
  | PScandir ref
  | PTaskForward ref ref string nat
  | PTaskNewChild ref string string nat
  | PBatchDone nat "string option"

text \<open>
  What the platform decides: whether \<^verbatim>\<open>fs.watch\<close> and \<^verbatim>\<open>fs.watchFile\<close> exist, the error
  with which each refuses a path, which paths the ignore rules exclude, and the layout of
  the \<^verbatim>\<open>fs.Stats\<close> objects it hands out.
\<close>

record env =
  has_watch :: bool
  has_watchFile :: bool
  watch_throws :: "string option \<Rightarrow> string option"
  watchFile_throws :: "string option \<Rightarrow> string option"
  ignored :: "string \<Rightarrow> bool"
  stats_layout :: "stats \<Rightarrow> jsobj"

record world =
  heap :: "watcher list"
  watchers :: "string option \<Rightarrow> ref option"
  trace :: "(ref \<times> event) list"
  pend :: "(nat \<times> pending) list"
  fresh :: nat
  fswatchers :: "(nat \<times> ref \<times> string) list"
  watchFiles :: "(string option \<times> ref \<times> string) list"
  batches :: "batch list"
  fsenv :: env

datatype 'a res = Ok 'a | Throw string world | OutOfFuel

fun bind :: "'a res \<Rightarrow> ('a \<Rightarrow> 'b res) \<Rightarrow> 'b res" where
  "bind (Ok x) f = f x"
| "bind (Throw e s) f = Throw e s"
| "bind OutOfFuel f = OutOfFuel"

definition node :: "world \<Rightarrow> ref \<Rightarrow> watcher" where
  "node s r = (if r < length (heap s) then heap s ! r else new_Watcher)"

definition upd :: "ref \<Rightarrow> (watcher \<Rightarrow> watcher) \<Rightarrow> world \<Rightarrow> world" where
  "upd r f s = s\<lparr>heap := (heap s)[r := f (node s r)]\<rparr>"

definition path_str :: "string option \<Rightarrow> string" where
  "path_str p = (case p of None \<Rightarrow> ''null'' | Some q \<Rightarrow> q)"

definition delete_key :: "string \<Rightarrow> (string \<times> 'a) list \<Rightarrow> (string \<times> 'a) list" where
  "delete_key k kvs = filter (\<lambda>(k', v). k' \<noteq> k) kvs"

definition enq :: "pending \<Rightarrow> world \<Rightarrow> world" where
  "enq p s = s\<lparr>pend := pend s @ [(fresh s, p)], fresh := fresh s + 1\<rparr>"

definition get_batch :: "world \<Rightarrow> nat \<Rightarrow> batch" where
  "get_batch s b =
     (if b < length (batches s) then batches s ! b
      else \<lparr>b_node = 0, b_previousStat = None, b_currentStat = None, b_method = None,
             b_done = [], b_outstanding = 0, b_finished = True\<rparr>)"

definition upd_batch :: "nat \<Rightarrow> (batch \<Rightarrow> batch) \<Rightarrow> world \<Rightarrow> world" where
  "upd_batch b f s = s\<lparr>batches := (batches s)[b := f (get_batch s b)]\<rparr>"

definition finish_batch :: "nat \<Rightarrow> string option \<Rightarrow> world \<Rightarrow> world" where
  "finish_batch b err s =
     (if b_finished (get_batch s b) then s
      else enq (PBatchDone b err) (upd_batch b (\<lambda>t. t\<lparr>b_finished := True\<rparr>) s))"

definition phaseA_complete :: "nat \<Rightarrow> string option \<Rightarrow> world \<Rightarrow> world" where
  "phaseA_complete b err s = (if err \<noteq> None then finish_batch b err s else enq (PContinue b) s)"

definition subtask_complete :: "nat \<Rightarrow> string option \<Rightarrow> world \<Rightarrow> world" where
  "subtask_complete b err s =
     (let s1 = upd_batch b (\<lambda>t. t\<lparr>b_outstanding := b_outstanding t - 1\<rparr>) s
      in if err \<noteq> None then finish_batch b err s1
         else if b_outstanding (get_batch s1 b) = 0 then finish_batch b None s1
         else s1)"

text \<open>Iteration that stops at the first exception (\<^verbatim>\<open>eachr\<close>, a \<^verbatim>\<open>for\<close> loop).\<close>

fun each :: "(world \<Rightarrow> 'a \<Rightarrow> world res) \<Rightarrow> 'a list \<Rightarrow> world \<Rightarrow> world res" where
  "each f [] s = Ok s"
| "each f (x # xs) s = bind (f s x) (each f xs)"

datatype call =
    CEmit ref event
  | CHandler ref event handler
  | CCloseChild ref jsarg "string option"
  | CClose ref "string option"

type_synonym exec = "world \<Rightarrow> call \<Rightarrow> world res"

definition emit_body :: "exec \<Rightarrow> world \<Rightarrow> ref \<Rightarrow> event \<Rightarrow> world res" where
  "emit_body rec s r ev =
     (let ls = filter (\<lambda>l. l_event l = ev_name ev) (w_listeners (node s r));
          s1 = s\<lparr>trace := trace s @ [(r, ev)]\<rparr>
      in if ev_name ev = EvError \<and> ls = [] then Throw ''Unhandled error event'' s1
         else each (\<lambda>s' l.
                rec (if l_once l
                     then upd r (\<lambda>w. w\<lparr>w_listeners := remove1 l (w_listeners w)\<rparr>) s' else s')
                  (CHandler r ev (l_handler l))) ls s1)"

definition handler_body :: "exec \<Rightarrow> world \<Rightarrow> ref \<Rightarrow> event \<Rightarrow> handler \<Rightarrow> world res" where
  "handler_body rec s r ev h =
     (case h of
        RegistryClose p \<Rightarrow> Ok (s\<lparr>watchers := (watchers s)(p := None)\<rparr>)
      | ChildClose par rel \<Rightarrow>
          Ok (upd par (\<lambda>w. w\<lparr>w_children := delete_key rel (w_children w)\<rparr>) s)
      | ChildLog par \<Rightarrow> rec s (CEmit par ev)
      | ChildChange par rel fullPath \<Rightarrow>
          bind (case ev of
                  Change t p c q \<Rightarrow>
                    if t = Delete \<and> p = Some fullPath
                    then rec s (CCloseChild par (AStr rel) (Some ''deleted'')) else Ok s
                | _ \<Rightarrow> Ok s)
            (\<lambda>s'. rec s' (CEmit par ev))
      | Callback k \<Rightarrow>
          (case ev of
             Watching err w \<Rightarrow>
               (case k of
                  UserNext i \<Rightarrow> Ok s
                | CreatedChild par fullPath b \<Rightarrow>
                    (case err of
                       Some e \<Rightarrow> Ok (subtask_complete b (Some e) s)
                     | None \<Rightarrow>
                         bind (rec s (CEmit par (Change Create (Some fullPath) (w_stat (node s w)) None)))
                           (\<lambda>s'. Ok (subtask_complete b None s')))
                | ScanFile par \<Rightarrow> Ok s
                | PhaseADone b \<Rightarrow> Ok (phaseA_complete b err s))
           | _ \<Rightarrow> Ok s)
      | UserListener i \<Rightarrow> Ok s)"

definition closeChild_body :: "exec \<Rightarrow> world \<Rightarrow> ref \<Rightarrow> jsarg \<Rightarrow> string option \<Rightarrow> world res" where
  "closeChild_body rec s r key reason =
     (case map_of (w_children (node s r)) (to_key key) of
        None \<Rightarrow> Ok s
      | Some Reserved \<Rightarrow> Throw ''TypeError: watcher.close is not a function'' s
      | Some (Child c) \<Rightarrow> rec s (CClose c reason))"

definition close_body :: "exec \<Rightarrow> world \<Rightarrow> ref \<Rightarrow> string option \<Rightarrow> world res" where
  "close_body rec s r reason =
     (if w_state (node s r) \<noteq> Active then Ok s
      else
        bind (rec s (CEmit r (Log Debug (CloseMsg (w_path (node s r)))))) (\<lambda>s1.
        bind (each (\<lambda>s' k. case map_of (w_children (node s' r)) k of
                              None \<Rightarrow> Ok s'
                            | Some c \<Rightarrow> rec s' (CCloseChild r (AChild c) reason))
                (map fst (w_children (node s1 r))) s1) (\<lambda>s2.
        let s3 = (if w_method (node s2 r) = Some ''watchFile''
                  then s2\<lparr>watchFiles := filter (\<lambda>(p, x). p \<noteq> w_path (node s2 r)) (watchFiles s2)\<rparr>
                  else s2);
            s4 = (case w_fswatcher (node s3 r) of
                    None \<Rightarrow> s3
                  | Some h \<Rightarrow> upd r (\<lambda>w. w\<lparr>w_fswatcher := None\<rparr>)
                      (s3\<lparr>fswatchers := filter (\<lambda>(h', x). h' \<noteq> h) (fswatchers s3)\<rparr>))
        in bind
             (if reason = Some ''deleted'' then
                (let s5 = upd r (\<lambda>w. w\<lparr>w_state := Deleted\<rparr>) s4
                 in rec s5 (CEmit r (Change Delete (w_path (node s5 r)) None (w_stat (node s5 r)))))
              else if reason = Some ''failure'' then
                (let s5 = upd r (\<lambda>w. w\<lparr>w_state := Closed\<rparr>) s4
                 in rec s5 (CEmit r (Log Warn (FailedToWatch (w_path (node s5 r))))))
              else Ok (upd r (\<lambda>w. w\<lparr>w_state := Closed\<rparr>) s4))
             (\<lambda>s6. rec s6 (CEmit r (CloseEv reason))))))"

primrec exec :: "nat \<Rightarrow> exec" where
  "exec 0 s c = OutOfFuel"
| "exec (Suc n) s c =
     (case c of
        CEmit r ev \<Rightarrow> emit_body (exec n) s r ev
      | CHandler r ev h \<Rightarrow> handler_body (exec n) s r ev h
      | CCloseChild r key reason \<Rightarrow> closeChild_body (exec n) s r key reason
      | CClose r reason \<Rightarrow> close_body (exec n) s r reason)"

definition emit :: "nat \<Rightarrow> world \<Rightarrow> ref \<Rightarrow> event \<Rightarrow> world res" where
  "emit n s r ev = exec n s (CEmit r ev)"

definition closeChild :: "nat \<Rightarrow> world \<Rightarrow> ref \<Rightarrow> jsarg \<Rightarrow> string option \<Rightarrow> world res" where
  "closeChild n s r key reason = exec n s (CCloseChild r key reason)"

definition close :: "nat \<Rightarrow> world \<Rightarrow> ref \<Rightarrow> string option \<Rightarrow> world res" where
  "close n s r reason = exec n s (CClose r reason)"


definition log :: "nat \<Rightarrow> world \<Rightarrow> ref \<Rightarrow> level \<Rightarrow> logmsg \<Rightarrow> world res" where
  "log n s r level msg = emit n s r (Log level msg)"

subsection \<open>Configuration\<close>

record opts =
  o_path :: "string option"
  o_stat :: "stats option"
  o_catchupDelay :: "nat option"
  o_preferredMethods :: "string list option"
  o_followLinks :: "bool option"
  o_once :: "(evname \<times> handler) list"
  o_on :: "(evname \<times> handler) list"

definition no_opts :: opts where
  "no_opts = \<lparr>o_path = None, o_stat = None, o_catchupDelay = None, o_preferredMethods = None,
     o_followLinks = None, o_once = [], o_on = []\<rparr>"

definition extend :: "config \<Rightarrow> opts \<Rightarrow> config" where
  "extend c opts =
     \<lparr>c_path = (case o_path opts of None \<Rightarrow> c_path c | Some p \<Rightarrow> Some p),
      c_catchupDelay = (case o_catchupDelay opts of None \<Rightarrow> c_catchupDelay c | Some d \<Rightarrow> d),
      c_preferredMethods =
        (case o_preferredMethods opts of None \<Rightarrow> c_preferredMethods c | Some m \<Rightarrow> m),
      c_followLinks = (case o_followLinks opts of None \<Rightarrow> c_followLinks c | Some f \<Rightarrow> f)\<rparr>"

fun is_user :: "handler \<Rightarrow> bool" where
  "is_user (UserListener i) = True"
| "is_user (Callback (UserNext i)) = True"
| "is_user h = False"

definition removeListener :: "evname \<Rightarrow> handler \<Rightarrow> listener list \<Rightarrow> listener list" where
  "removeListener name h ls =
     (if is_user h
      then rev (case List.extract (\<lambda>l. l_event l = name \<and> l_handler l = h) (rev ls) of
                  None \<Rightarrow> rev ls
                | Some (before, l, after) \<Rightarrow> before @ after)
      else ls)"

definition addListener :: "nat \<Rightarrow> bool \<Rightarrow> world \<Rightarrow> ref \<Rightarrow> evname \<times> handler \<Rightarrow> world res" where
  "addListener n once s r eh =
     (let (name, h) = eh;
          s1 = upd r (\<lambda>w. w\<lparr>w_listeners :=
                 removeListener name h (w_listeners w) @
                   [\<lparr>l_event = name, l_once = once, l_handler = h\<rparr>]\<rparr>) s
      in log n s1 r Debug (AddedListener once name (w_path (node s1 r))))"

definition setConfig :: "nat \<Rightarrow> world \<Rightarrow> ref \<Rightarrow> opts \<Rightarrow> world res" where
  "setConfig n s r opts =
     (let s1 = upd r (\<lambda>w. w\<lparr>w_config := extend (w_config w) opts\<rparr>) s;
          s2 = upd r (\<lambda>w. w\<lparr>w_path := c_path (w_config w)\<rparr>) s1;
          s3 = (case o_stat opts of None \<Rightarrow> s2 | Some st \<Rightarrow> upd r (\<lambda>w. w\<lparr>w_stat := Some st\<rparr>) s2)
      in bind (each (\<lambda>s' eh. addListener n True s' r eh) (o_once opts) s3)
           (each (\<lambda>s' eh. addListener n False s' r eh) (o_on opts)))"

subsection \<open>Binding a backend\<close>

definition watchMethod :: "world \<Rightarrow> ref \<Rightarrow> string \<Rightarrow> string option \<times> world" where
  "watchMethod s r method =
     (if method = ''watch'' then
        (if \<not> has_watch (fsenv s)
         then (Some ''watch method is not supported on this environment, fs.watch does not exist'', s)
         else case watch_throws (fsenv s) (w_path (node s r)) of
                Some e \<Rightarrow> (Some e, s)
              | None \<Rightarrow>
                  (None, upd r (\<lambda>w. w\<lparr>w_fswatcher := Some (fresh s)\<rparr>)
                     (s\<lparr>fswatchers := fswatchers s @ [(fresh s, r, method)], fresh := fresh s + 1\<rparr>)))
      else if method = ''watchFile'' then
        (if \<not> has_watchFile (fsenv s)
         then (Some ''watchFile method is not supported on this environment, fs.watchFile does not exist'', s)
         else case watchFile_throws (fsenv s) (w_path (node s r)) of
                Some e \<Rightarrow> (Some e, s)
              | None \<Rightarrow> (None, s\<lparr>watchFiles := watchFiles s @ [(w_path (node s r), r, method)]\<rparr>))
      else (Some ''unknown watch method'', s))"

fun join_comma :: "string list \<Rightarrow> string" where
  "join_comma [] = []"
| "join_comma [x] = x"
| "join_comma (x # y # ys) = x @ '','' @ join_comma (y # ys)"

definition error_list :: "string list \<Rightarrow> string" where
  "error_list errs = join_comma (map (\<lambda>e. ''Error: '' @ e) errs)"

fun watchSelf :: "world \<Rightarrow> ref \<Rightarrow> string list \<Rightarrow> string list \<Rightarrow> string option \<times> world" where
  "watchSelf s r errors [] =
     (Some (''no watch methods left to try, failures are: '' @ error_list errors), s)"
| "watchSelf s r errors (method # rest) =
     (case watchMethod s r method of
        (Some err, s') \<Rightarrow> watchSelf s' r (errors @ [err]) rest
      | (None, s') \<Rightarrow>
          (None, upd r (\<lambda>w. w\<lparr>w_method := Some method, w_state := Active\<rparr>) s'))"

subsection \<open>Activation\<close>

definition watch_done :: "nat \<Rightarrow> world \<Rightarrow> ref \<Rightarrow> string option \<Rightarrow> world res" where
  "watch_done n s r err =
     bind (if err \<noteq> None then close n s r (Some ''child failure'') else Ok s) (\<lambda>s1.
     bind (log n s1 r Debug (WatchDone (w_path (node s1 r)) err)) (\<lambda>s2.
     emit n s2 r (Watching err r)))"

definition watch_after_stat :: "nat \<Rightarrow> world \<Rightarrow> ref \<Rightarrow> string option \<Rightarrow> world res" where
  "watch_after_stat n s r err =
     (case err of
        Some e \<Rightarrow> emit n s r (Watching (Some e) r)
      | None \<Rightarrow>
          (case watchSelf s r [] (c_preferredMethods (w_config (node s r))) of
             (Some e, s1) \<Rightarrow> emit n s1 r (Watching (Some e) r)
           | (None, s1) \<Rightarrow>
               (case w_stat (node s1 r) of
                  None \<Rightarrow> Throw ''TypeError: Cannot read property isDirectory of null'' s1
                | Some st \<Rightarrow>
                    if isDirectory_stat st then Ok (enq (PScandir r) s1)
                    else watch_done n s1 r None)))"

definition watch :: "nat \<Rightarrow> world \<Rightarrow> ref \<Rightarrow> bool \<Rightarrow> cont option \<Rightarrow> world res" where
  "watch n s r reset next =
     (let s0 = (case next of
                  None \<Rightarrow> s
                | Some k \<Rightarrow> upd r (\<lambda>w. w\<lparr>w_listeners := w_listeners w @
                      [\<lparr>l_event = EvWatching, l_once = True, l_handler = Callback k\<rparr>]\<rparr>) s)
      in if w_state (node s0 r) = Active \<and> \<not> reset then emit n s0 r (Watching None r)
         else
           bind (close n s0 r None) (\<lambda>s1.
           bind (log n s1 r Debug (WatchInit (w_path (node s1 r)))) (\<lambda>s2.
           case w_stat (node s2 r) of
             Some st \<Rightarrow> watch_after_stat n s2 r None
           | None \<Rightarrow> Ok (enq (PStat r KWatch) s2))))"

subsection \<open>The registry (static \<^verbatim>\<open>Watcher.watch\<close>)\<close>

definition Watcher_watch :: "nat \<Rightarrow> world \<Rightarrow> opts \<Rightarrow> cont option \<Rightarrow> (ref \<times> world) res" where
  "Watcher_watch n s opts next =
     (case watchers s (o_path opts) of
        Some r \<Rightarrow>
          bind (setConfig n s r opts) (\<lambda>s1.
          bind (watch n s1 r False next) (\<lambda>s2. Ok (r, s2)))
      | None \<Rightarrow>
          (let r = length (heap s);
               s1 = s\<lparr>heap := heap s @ [new_Watcher], watchers := (watchers s)(o_path opts := Some r)\<rparr>
           in bind (setConfig n s1 r opts) (\<lambda>s2.
              let s3 = upd r (\<lambda>w. w\<lparr>w_listeners := w_listeners w @
                         [\<lparr>l_event = EvClose, l_once = True,
                           l_handler = RegistryClose (o_path opts)\<rparr>]\<rparr>) s2
              in bind (watch n s3 r False next) (\<lambda>s4. Ok (r, s4)))))"

subsection \<open>Children\<close>

definition set_key :: "string \<Rightarrow> 'a \<Rightarrow> (string \<times> 'a) list \<Rightarrow> (string \<times> 'a) list" where
  "set_key k v kvs =
     (if k \<in> fst ` set kvs then map (\<lambda>(k', v'). if k' = k then (k', v) else (k', v')) kvs
      else kvs @ [(k, v)])"

definition watchChild ::
  "nat \<Rightarrow> world \<Rightarrow> ref \<Rightarrow> string \<Rightarrow> string \<Rightarrow> stats option \<Rightarrow> cont option \<Rightarrow> world res" where
  "watchChild n s r fullPath relativePath stat next =
     (case map_of (w_children (node s r)) relativePath of
        Some (Child c) \<Rightarrow>
          (case next of
             None \<Rightarrow> Ok s
           | Some k \<Rightarrow> exec n s (CHandler c (Watching None c) (Callback k)))
      | _ \<Rightarrow>
          bind (Watcher_watch n s
                  \<lparr>o_path = Some fullPath, o_stat = stat,
                   o_catchupDelay = Some (c_catchupDelay (w_config (node s r))),
                   o_preferredMethods = Some (c_preferredMethods (w_config (node s r))),
                   o_followLinks = Some (c_followLinks (w_config (node s r))),
                   o_once = [(EvClose, ChildClose r relativePath)],
                   o_on = [(EvLog, ChildLog r), (EvChange, ChildChange r relativePath fullPath)]\<rparr>
                  next)
            (\<lambda>(c, s'). Ok (upd r (\<lambda>w. w\<lparr>w_children := set_key relativePath (Child c) (w_children w)\<rparr>) s')))"


subsection \<open>Ignored paths\<close>

definition isIgnoredPath :: "nat \<Rightarrow> world \<Rightarrow> ref \<Rightarrow> string \<Rightarrow> (bool \<times> world) res" where
  "isIgnoredPath n s r path =
     (let ignore = ignored (fsenv s) path
      in bind (log n s r Debug (IgnoreMsg path ignore))
           (\<lambda>s'. Ok (ignore, s')))"

definition join_path :: "string option \<Rightarrow> string \<Rightarrow> string" where
  "join_path dir rel = path_str dir @ ''/'' @ rel"

subsection \<open>The listener\<close>

definition clearTimeout :: "nat \<Rightarrow> world \<Rightarrow> world" where
  "clearTimeout t s = s\<lparr>pend := filter (\<lambda>(i, p). i \<noteq> t) (pend s)\<rparr>"

definition listener :: "nat \<Rightarrow> world \<Rightarrow> ref \<Rightarrow> string option \<Rightarrow> donecb option \<Rightarrow> world res" where
  "listener n s r opts_method next =
     (let method = (case opts_method of Some m \<Rightarrow> Some m | None \<Rightarrow> w_method (node s r));
          next1 = (case next of Some d \<Rightarrow> d | None \<Rightarrow> DefaultNext r);
          previousStat = w_stat (node s r)
      in bind (log n s r Debug (WatchFired (w_path (node s r)))) (\<lambda>s1.
         let s2 = (case w_listenerTimeout (node s1 r) of
                     None \<Rightarrow> s1
                   | Some t \<Rightarrow> clearTimeout t s1);
             s3 = enq (PTimer r) (upd r (\<lambda>w. w\<lparr>w_listenerTimeout := Some (fresh s2)\<rparr>) s2)
         in case w_listenerTasks (node s3 r) of
              Some b \<Rightarrow> Ok (upd_batch b (\<lambda>t. t\<lparr>b_done := b_done t @ [next1]\<rparr>) s3)
            | None \<Rightarrow>
                Ok (upd r (\<lambda>w. w\<lparr>w_listenerTasks := Some (length (batches s3))\<rparr>)
                      (s3\<lparr>batches := batches s3 @
                         [\<lparr>b_node = r, b_previousStat = previousStat, b_currentStat = None,
                           b_method = method, b_done = [next1], b_outstanding = 0,
                           b_finished = False\<rparr>]\<rparr>))))"

text \<open>The timer fires: the batch is taken off the node and its first task starts.\<close>

definition timer_fired :: "nat \<Rightarrow> world \<Rightarrow> ref \<Rightarrow> world res" where
  "timer_fired n s r =
     (let listenerTasks = w_listenerTasks (node s r);
          s1 = upd r (\<lambda>w. w\<lparr>w_listenerTasks := None, w_listenerTimeout := None\<rparr>) s
      in case listenerTasks of
           None \<Rightarrow> Throw ''TypeError: Cannot read property run of null'' s1
         | Some b \<Rightarrow>
             bind (log n s1 r Debug (WatchEvaluating (w_path (node s1 r))))
               (\<lambda>s2. Ok (enq (PExists r b) s2)))"

text \<open>Phase A, the answer of \<^verbatim>\<open>fsUtil.exists\<close>.\<close>

definition exists_answered :: "nat \<Rightarrow> world \<Rightarrow> ref \<Rightarrow> nat \<Rightarrow> bool \<Rightarrow> world res" where
  "exists_answered n s r b fileExists =
     (if fileExists = False then
        bind (log n s r Debug (DeterminedDelete (w_path (node s r)))) (\<lambda>s1.
        bind (close n s1 r (Some ''deleted'')) (\<lambda>s2.
        Ok (finish_batch b None (upd r (\<lambda>w. w\<lparr>w_stat := None\<rparr>) s2))))
      else Ok (enq (PStat r (KListener b)) s))"

definition date_toString :: "int \<Rightarrow> int" where
  "date_toString t = t div 1000"

text \<open>Phase A, the answer of the stat refresh.\<close>

definition stat_refreshed :: "nat \<Rightarrow> world \<Rightarrow> ref \<Rightarrow> nat \<Rightarrow> string + stats \<Rightarrow> world res" where
  "stat_refreshed n s r b res =
     (case res of
        Inl err \<Rightarrow> Ok (finish_batch b (Some err) s)
      | Inr stat \<Rightarrow>
          (let s1 = upd r (\<lambda>w. w\<lparr>w_stat := Some stat\<rparr>) s;
               s2 = upd_batch b (\<lambda>t. t\<lparr>b_currentStat := Some stat\<rparr>) s1
           in case b_previousStat (get_batch s2 b) of
                None \<Rightarrow> Throw ''TypeError: Cannot read property birthtime of null'' s2
              | Some previousStat \<Rightarrow>
                  if date_toString (birthtime stat) \<noteq> date_toString (birthtime previousStat) then
                    bind (log n s2 r Debug (DeterminedReplaced (w_path (node s2 r))))
                      (\<lambda>s3. watch n s3 r True (Some (PhaseADone b)))
                  else Ok (phaseA_complete b None s2)))"

text \<open>Phase C on a directory, the answer of \<^verbatim>\<open>fsUtil.readdir\<close>.\<close>

definition forward_scan :: "ref \<Rightarrow> nat \<Rightarrow> string list \<Rightarrow> world \<Rightarrow> string \<times> child \<Rightarrow> world res" where
  "forward_scan r b newFileRelativePaths s kc =
     (case kc of
        (childFileRelativePath, Child c) \<Rightarrow>
          if childFileRelativePath \<notin> set newFileRelativePaths then Ok s
          else Ok (enq (PTaskForward r c childFileRelativePath b)
                     (upd_batch b (\<lambda>t. t\<lparr>b_outstanding := b_outstanding t + 1\<rparr>) s))
      | (childFileRelativePath, Reserved) \<Rightarrow> Ok s)"

definition deletion_scan :: "nat \<Rightarrow> ref \<Rightarrow> string list \<Rightarrow> world \<Rightarrow> string \<Rightarrow> world res" where
  "deletion_scan n r newFileRelativePaths s childFileRelativePath =
     (if map_of (w_children (node s r)) childFileRelativePath = None then Ok s
      else if childFileRelativePath \<in> set newFileRelativePaths then Ok s
      else
        (let childFileFullPath = join_path (w_path (node s r)) childFileRelativePath
         in bind (isIgnoredPath n s r childFileFullPath) (\<lambda>(ignore, s1).
              if ignore then
                log n s1 r Debug (IgnoredDelete childFileFullPath (w_path (node s1 r)))
              else
                bind (log n s1 r Debug (DeterminedDeleteVia childFileFullPath (w_path (node s1 r))))
                  (\<lambda>s2. closeChild n s2 r (AStr childFileRelativePath) (Some ''deleted'')))))"

definition creation_scan :: "nat \<Rightarrow> ref \<Rightarrow> nat \<Rightarrow> world \<Rightarrow> string \<Rightarrow> world res" where
  "creation_scan n r b s childFileRelativePath =
     (if map_of (w_children (node s r)) childFileRelativePath \<noteq> None then Ok s
      else
        (let s1 = upd r (\<lambda>w. w\<lparr>w_children := set_key childFileRelativePath Reserved (w_children w)\<rparr>) s;
             childFileFullPath = join_path (w_path (node s1 r)) childFileRelativePath
         in bind (isIgnoredPath n s1 r childFileFullPath) (\<lambda>(ignore, s2).
              if ignore then
                log n s2 r Debug (IgnoredCreate childFileFullPath (w_path (node s2 r)))
              else Ok (enq (PTaskNewChild r childFileFullPath childFileRelativePath b)
                         (upd_batch b (\<lambda>t. t\<lparr>b_outstanding := b_outstanding t + 1\<rparr>) s2)))))"

definition readdir_answered :: "nat \<Rightarrow> world \<Rightarrow> ref \<Rightarrow> nat \<Rightarrow> string + string list \<Rightarrow> world res" where
  "readdir_answered n s r b res =
     (case res of
        Inl err \<Rightarrow> Ok (finish_batch b (Some err) s)
      | Inr newFileRelativePaths \<Rightarrow>
          bind (if b_method (get_batch s b) = Some ''watch''
                then each (forward_scan r b newFileRelativePaths) (w_children (node s r)) s
                else Ok s) (\<lambda>s1.
          bind (each (deletion_scan n r newFileRelativePaths) (map fst (w_children (node s1 r))) s1) (\<lambda>s2.
          bind (each (creation_scan n r b) newFileRelativePaths s2) (\<lambda>s3.
          Ok (if b_outstanding (get_batch s3 b) = 0 then finish_batch b None s3 else s3)))))"

text \<open>Phases B and C, run when the first task has completed without error.\<close>

definition phases_BC :: "nat \<Rightarrow> world \<Rightarrow> nat \<Rightarrow> world res" where
  "phases_BC n s b =
     (let r = b_node (get_batch s b);
          previousStat = b_previousStat (get_batch s b);
          currentStat = b_currentStat (get_batch s b)
      in if statChanged (stat_arg (stats_layout (fsenv s)) previousStat)
              (stat_arg (stats_layout (fsenv s)) currentStat) = False then
           bind (log n s r Debug (DeterminedSame (w_path (node s r))))
             (\<lambda>s1. Ok (finish_batch b None s1))
         else
           (case w_stat (node s r) of
              None \<Rightarrow> Throw ''TypeError: Cannot read property isDirectory of null'' s
            | Some st \<Rightarrow>
                if isDirectory_stat st = False then
                  bind (log n s r Debug (DeterminedUpdate (w_path (node s r)))) (\<lambda>s1.
                  bind (emit n s1 r (Change Update (w_path (node s1 r)) currentStat previousStat)) (\<lambda>s2.
                  Ok (finish_batch b None s2)))
                else Ok (enq (PReaddir r b) s)))"

definition batch_done :: "nat \<Rightarrow> world \<Rightarrow> nat \<Rightarrow> string option \<Rightarrow> world res" where
  "batch_done n s b err =
     each (\<lambda>s' d. case d of
                     DefaultNext r \<Rightarrow>
                       (case err of None \<Rightarrow> Ok s' | Some e \<Rightarrow> emit n s' r (ErrorEv e))
                   | TaskComplete pb \<Rightarrow> Ok (subtask_complete pb err s'))
       (b_done (get_batch s b)) s"

subsection \<open>Directory scan on activation\<close>

definition scan_entry :: "nat \<Rightarrow> world \<Rightarrow> ref \<Rightarrow> string \<Rightarrow> string \<Rightarrow> world res" where
  "scan_entry n s r fullPath relativePath =
     (if w_state (node s r) \<noteq> Active then Ok s
      else watchChild n s r fullPath relativePath None (Some (ScanFile r)))"

subsection \<open>Delivery of pending callbacks\<close>

datatype answer =
    ATick
  | AExists bool
  | AStat "string + stats"
  | AReaddir "string + string list"
  | AScanEntry string string
  | AScanDone "string option"

definition deliver :: "nat \<Rightarrow> world \<Rightarrow> nat \<Rightarrow> answer \<Rightarrow> world res" where
  "deliver n s i a =
     (let s0 = clearTimeout i s in
      case (map_of (pend s) i, a) of
        (Some (PTimer r), ATick) \<Rightarrow> timer_fired n s0 r
      | (Some (PExists r b), AExists e) \<Rightarrow> exists_answered n s0 r b e
      | (Some (PStat r KWatch), AStat res) \<Rightarrow>
          (case res of
             Inl err \<Rightarrow> watch_after_stat n s0 r (Some err)
           | Inr stat \<Rightarrow> watch_after_stat n (upd r (\<lambda>w. w\<lparr>w_stat := Some stat\<rparr>) s0) r None)
      | (Some (PStat r (KListener b)), AStat res) \<Rightarrow> stat_refreshed n s0 r b res
      | (Some (PContinue b), ATick) \<Rightarrow> phases_BC n s0 b
      | (Some (PReaddir r b), AReaddir res) \<Rightarrow> readdir_answered n s0 r b res
      | (Some (PScandir r), AScanEntry fullPath relativePath) \<Rightarrow> scan_entry n s r fullPath relativePath
      | (Some (PScandir r), AScanDone err) \<Rightarrow> watch_done n s0 r err
      | (Some (PTaskForward r c rel b), ATick) \<Rightarrow>
          bind (log n s0 r Debug (Forwarding rel (w_path (node s0 r))))
            (\<lambda>s1. listener n s1 c None (Some (TaskComplete b)))
      | (Some (PTaskNewChild r fullPath rel b), ATick) \<Rightarrow>
          bind (log n s0 r Debug (DeterminedCreate fullPath (w_path (node s0 r))))
            (\<lambda>s1. watchChild n s1 r fullPath rel None (Some (CreatedChild r fullPath b)))
      | (Some (PBatchDone b err), ATick) \<Rightarrow> batch_done n s0 b err
      | _ \<Rightarrow> Ok s)"

text \<open>A raw notification of a bound backend calls the node's listener with the method.\<close>

definition notify_watch :: "nat \<Rightarrow> world \<Rightarrow> nat \<Rightarrow> world res" where
  "notify_watch n s h =
     (case map_of (fswatchers s) h of
        None \<Rightarrow> Ok s
      | Some (r, method) \<Rightarrow> listener n s r (Some method) None)"

definition notify_watchFile :: "nat \<Rightarrow> world \<Rightarrow> string option \<Rightarrow> world res" where
  "notify_watchFile n s path =
     each (\<lambda>s' (p, r, method). if p = path then listener n s' r (Some method) None else Ok s')
       (watchFiles s) s"

definition world0 :: "env \<Rightarrow> world" where
  "world0 e = \<lparr>heap = [], watchers = (\<lambda>p. None), trace = [], pend = [], fresh = 0,
     fswatchers = [], watchFiles = [], batches = [], fsenv = e\<rparr>"

section \<open>Example inputs\<close>

definition stat0 :: stats where
  "stat0 = \<lparr>dev = 2049, mode = 33188, nlink = 1, uid = 1000, gid = 1000, rdev = 0,
     blksize = 4096, ino = 77, size_st = 10, blocks = 8, atime = 1000, mtime = 2000,
     ctime = 3000, birthtime = 500\<rparr>"

definition store0 :: objstore where
  "store0 = [stat_obj stat0, stat_obj (stat0\<lparr>atime := 9000, ctime := 9500\<rparr>)]"

subsection \<open>Observing the outcome of a call\<close>

text \<open>
  \<open>holds P x\<close>: the world in which the call \<open>x\<close> ended, by returning or by raising,
  satisfies \<open>P\<close>.
\<close>

definition holds :: "(world \<Rightarrow> bool) \<Rightarrow> world res \<Rightarrow> bool" where
  "holds P x = (case x of Ok s \<Rightarrow> P s | Throw e s \<Rightarrow> P s | OutOfFuel \<Rightarrow> True)"

definition states :: "world \<Rightarrow> wstate list" where
  "states s = map w_state (heap s)"

definition returns :: "world res \<Rightarrow> bool" where
  "returns x = (case x of Ok s \<Rightarrow> True | Throw e s \<Rightarrow> False | OutOfFuel \<Rightarrow> True)"

text \<open>\<open>ends P x\<close>: the call raises nothing, and the world in which it ends satisfies \<open>P\<close>.\<close>

definition ends :: "(world \<Rightarrow> bool) \<Rightarrow> world res \<Rightarrow> bool" where
  "ends P x = (returns x \<and> holds P x)"







text \<open>The directory listings that phase C has asked for and that are still pending.\<close>

fun is_readdir :: "pending \<Rightarrow> bool" where
  "is_readdir (PReaddir r b) = True"
| "is_readdir p = False"

definition readdirs :: "world \<Rightarrow> pending list" where
  "readdirs s = filter is_readdir (map snd (pend s))"


text \<open>
  The state of one watcher before and after: unchanged, or from \<open>Active\<close> to \<open>Closed\<close> or
  \<open>Deleted\<close>; and the same for all watchers of a world.
\<close>

definition ok_trans :: "wstate \<Rightarrow> wstate \<Rightarrow> bool" where
  "ok_trans a b = (b = a \<or> (a = Active \<and> (b = Closed \<or> b = Deleted)))"

definition mono_states :: "world \<Rightarrow> world \<Rightarrow> bool" where
  "mono_states s s' = list_all2 ok_trans (states s) (states s')"

definition obs :: "(world \<Rightarrow> 'a) \<Rightarrow> world res \<Rightarrow> 'a option" where
  "obs f x = (case x of Ok s \<Rightarrow> Some (f s) | Throw e s \<Rightarrow> None | OutOfFuel \<Rightarrow> None)"

definition thrown :: "world res \<Rightarrow> (string \<times> world) option" where
  "thrown x = (case x of Ok s \<Rightarrow> None | Throw e s \<Rightarrow> Some (e, s) | OutOfFuel \<Rightarrow> None)"

definition children_of :: "ref \<Rightarrow> world \<Rightarrow> (string \<times> child) list" where
  "children_of r s = w_children (node s r)"

definition stat_of :: "ref \<Rightarrow> world \<Rightarrow> stats option" where
  "stat_of r s = w_stat (node s r)"

definition state_of :: "ref \<Rightarrow> world \<Rightarrow> wstate" where
  "state_of r s = w_state (node s r)"

definition changes :: "world \<Rightarrow> (ref \<times> event) list" where
  "changes s = filter (\<lambda>(r, e). ev_name e \<noteq> EvLog) (trace s)"

subsection \<open>Relations between the worlds before and after a call\<close>

text \<open>
  \<open>fwd\<close>: no watcher is added and every watcher keeps its state or leaves \<open>Active\<close> for
  \<open>Closed\<close> or \<open>Deleted\<close>.  \<open>logged\<close>: the trace has grown by log events only.
  \<open>log_call\<close>: the calls made while a log event is dispatched.
\<close>

definition fwd :: "world \<Rightarrow> world \<Rightarrow> bool" where
  "fwd s s' = (length (heap s') = length (heap s) \<and>
     (\<forall>r. ok_trans (w_state (node s r)) (w_state (node s' r))))"

definition logged :: "world \<Rightarrow> world \<Rightarrow> bool" where
  "logged s s' = (\<exists>k. trace s' = trace s @ k \<and> list_all (\<lambda>(r, e). ev_name e = EvLog) k)"


text \<open>
  The registry's own close listener sits on the \<open>close\<close> event only; the options of
  a caller never hold it.  Events other than \<open>close\<close>, \<open>error\<close> and a \<open>delete\<close> change are
  called benign; \<open>quiet\<close> says that a call has left the registry, the number of watchers,
  the bound backends and every watcher's state as they were.
\<close>

fun is_registry :: "handler \<Rightarrow> bool" where
  "is_registry (RegistryClose p) = True"
| "is_registry h = False"

definition wf_listeners :: "world \<Rightarrow> bool" where
  "wf_listeners s =
     list_all (\<lambda>w. list_all (\<lambda>l. is_registry (l_handler l) \<longrightarrow> l_event l = EvClose) (w_listeners w))
       (heap s)"




definition kept :: "world \<Rightarrow> world \<Rightarrow> bool" where
  "kept s s' = (wf_listeners s' \<and> watchers s' = watchers s \<and> length (heap s') = length (heap s))"

definition quiet :: "world \<Rightarrow> world \<Rightarrow> bool" where
  "quiet s s' = (kept s s' \<and> fswatchers s' = fswatchers s \<and> watchFiles s' = watchFiles s \<and>
     states s' = states s)"

subsection \<open>Example worlds\<close>

definition fuel :: nat where
  "fuel = Suc (Suc (Suc (Suc (Suc (Suc (Suc (Suc 0)))))))"

definition env0 :: env where
  "env0 = \<lparr>has_watch = True, has_watchFile = True, watch_throws = (\<lambda>p. None),
     watchFile_throws = (\<lambda>p. None), ignored = (\<lambda>p. False), stats_layout = stat_obj\<rparr>"


definition env_fail :: env where
  "env_fail = env0\<lparr>watch_throws := (\<lambda>p. Some ''EPERM''),
     watchFile_throws := (\<lambda>p. Some ''ENOSYS'')\<rparr>"

definition dir_stat :: stats where
  "dir_stat = stat0\<lparr>mode := 16877, ino := 70\<rparr>"

text \<open>
  An active directory watcher on \<^verbatim>\<open>/tmp/dir\<close> with one active child \<^verbatim>\<open>x\<close>, as it stands
  after \<^verbatim>\<open>Watcher.watch({path: '/tmp/dir'})\<close> has stat'ed the directory, scanned it and
  activated the child.
\<close>

definition dir_node :: watcher where
  "dir_node = new_Watcher\<lparr>w_path := Some ''/tmp/dir'', w_stat := Some dir_stat,
     w_fswatcher := Some 1, w_children := [(''x'', Child 1)], w_state := Active,
     w_method := Some ''watch'',
     w_config := (w_config new_Watcher)\<lparr>c_path := Some ''/tmp/dir''\<rparr>,
     w_listeners :=
       [\<lparr>l_event = EvClose, l_once = True, l_handler = RegistryClose (Some ''/tmp/dir'')\<rparr>]\<rparr>"

definition child_node :: watcher where
  "child_node = new_Watcher\<lparr>w_path := Some ''/tmp/dir/x'', w_stat := Some stat0,
     w_fswatcher := Some 4, w_state := Active, w_method := Some ''watch'',
     w_config := (w_config new_Watcher)\<lparr>c_path := Some ''/tmp/dir/x''\<rparr>,
     w_listeners :=
       [\<lparr>l_event = EvClose, l_once = True, l_handler = ChildClose 0 ''x''\<rparr>,
        \<lparr>l_event = EvLog, l_once = False, l_handler = ChildLog 0\<rparr>,
        \<lparr>l_event = EvChange, l_once = False, l_handler = ChildChange 0 ''x'' ''/tmp/dir/x''\<rparr>,
        \<lparr>l_event = EvClose, l_once = True, l_handler = RegistryClose (Some ''/tmp/dir/x'')\<rparr>]\<rparr>"

definition dir_world :: world where
  "dir_world = (world0 env0)\<lparr>heap := [dir_node, child_node],
     watchers := (\<lambda>p. if p = Some ''/tmp/dir'' then Some 0
                       else if p = Some ''/tmp/dir/x'' then Some 1 else None),
     fresh := 5, fswatchers := [(1, 0, ''watch''), (4, 1, ''watch'')]\<rparr>"

definition dir_world_run :: "world res" where
  "dir_world_run =
     bind (Watcher_watch fuel (world0 env0) (no_opts\<lparr>o_path := Some ''/tmp/dir''\<rparr>) None) (\<lambda>(r, s0).
     bind (deliver fuel s0 0 (AStat (Inr dir_stat))) (\<lambda>s1.
     bind (deliver fuel s1 2 (AScanEntry ''/tmp/dir/x'' ''x'')) (\<lambda>s2.
     bind (deliver fuel s2 3 (AStat (Inr stat0))) (\<lambda>s3.
     deliver fuel s3 2 (AScanDone None)))))"

text \<open>An active file watcher on \<^verbatim>\<open>/tmp/a.txt\<close>.\<close>

definition file_node :: watcher where
  "file_node = new_Watcher\<lparr>w_path := Some ''/tmp/a.txt'', w_stat := Some stat0,
     w_fswatcher := Some 1, w_state := Active, w_method := Some ''watch'',
     w_config := (w_config new_Watcher)\<lparr>c_path := Some ''/tmp/a.txt''\<rparr>,
     w_listeners :=
       [\<lparr>l_event = EvClose, l_once = True, l_handler = RegistryClose (Some ''/tmp/a.txt'')\<rparr>]\<rparr>"

definition file_world :: world where
  "file_world = (world0 env0)\<lparr>heap := [file_node],
     watchers := (\<lambda>p. if p = Some ''/tmp/a.txt'' then Some 0 else None),
     fresh := 2, fswatchers := [(1, 0, ''watch'')]\<rparr>"

definition file_opts :: opts where
  "file_opts = no_opts\<lparr>o_path := Some ''/tmp/a.txt''\<rparr>"

definition file_world_run :: "world res" where
  "file_world_run =
     bind (Watcher_watch fuel (world0 env0) file_opts None) (\<lambda>(r, s0).
     deliver fuel s0 0 (AStat (Inr stat0)))"

definition env_poll :: env where
  "env_poll = env0\<lparr>watch_throws := (\<lambda>p. Some ''EPERM'')\<rparr>"

definition pending_node :: watcher where
  "pending_node = new_Watcher\<lparr>w_path := Some ''/tmp/a.txt'', w_stat := Some stat0,
     w_config := (w_config new_Watcher)\<lparr>c_path := Some ''/tmp/a.txt''\<rparr>\<rparr>"

definition pending_world :: "env \<Rightarrow> world" where
  "pending_world e = (world0 e)\<lparr>heap := [pending_node],
     watchers := (\<lambda>p. if p = Some ''/tmp/a.txt'' then Some 0 else None)\<rparr>"

text \<open>
  The error with which binding a method fails in a world, if it fails, and the message of
  the error raised when no method is left.
\<close>

definition bind_error :: "world \<Rightarrow> ref \<Rightarrow> string \<Rightarrow> string option" where
  "bind_error s r method = fst (watchMethod s r method)"

definition aggregated :: "string list \<Rightarrow> string" where
  "aggregated errors = ''no watch methods left to try, failures are: '' @ error_list errors"











subsection \<open>Example runs\<close>

text \<open>
  The directory disappears: a raw notification, the debounce timer, and the answer
  \<^verbatim>\<open>false\<close> of \<^verbatim>\<open>fsUtil.exists\<close>.
\<close>

definition run_dir_deleted :: "world res" where
  "run_dir_deleted =
     bind (notify_watch fuel dir_world 1) (\<lambda>s1.
     bind (deliver fuel s1 5 ATick) (\<lambda>s2.
     deliver fuel s2 6 (AExists False)))"

definition run_dir_close :: "world res" where
  "run_dir_close = close fuel dir_world 0 (Some ''deleted'')"

text \<open>
  A raw notification arms the timer, then the watcher is closed, then the timer fires and
  the batch runs on a file whose size has changed.
\<close>

definition run_close_then_timer :: "world res" where
  "run_close_then_timer =
     bind (notify_watch fuel file_world 1) (\<lambda>s1.
     bind (close fuel s1 0 None) (\<lambda>s2.
     bind (deliver fuel s2 2 ATick) (\<lambda>s3.
     bind (deliver fuel s3 3 (AExists True)) (\<lambda>s4.
     bind (deliver fuel s4 4 (AStat (Inr (stat0\<lparr>size_st := 20\<rparr>)))) (\<lambda>s5.
     deliver fuel s5 5 ATick)))))"

definition closed_world :: world where
  "closed_world = upd 0 (\<lambda>w. w\<lparr>w_state := Closed, w_fswatcher := None\<rparr>) file_world"

definition closed_file_world :: "world res" where
  "closed_file_world = close fuel file_world 0 None"

definition run_rewatch :: "world res" where
  "run_rewatch = bind closed_file_world (\<lambda>s. watch fuel s 0 False None)"


text \<open>Activation where both backends refuse to bind.\<close>

definition run_all_fail :: "world res" where
  "run_all_fail =
     bind (Watcher_watch fuel (world0 env_fail) file_opts None) (\<lambda>(r, s1).
     deliver fuel s1 0 (AStat (Inr stat0)))"

text \<open>A directory watcher with a reserved slot \<^verbatim>\<open>y\<close> next to its child \<^verbatim>\<open>x\<close>.\<close>

definition reserved_world :: world where
  "reserved_world =
     upd 0 (\<lambda>w. w\<lparr>w_children := [(''x'', Child 1), (''y'', Reserved)]\<rparr>) dir_world"

definition run_close_reserved :: "world res" where
  "run_close_reserved = closeChild fuel reserved_world 0 (AStr ''y'') (Some ''deleted'')"

section \<open>The stat comparator\<close>

lemmas json_defs = dereferenceJSON_def JSON_parse_def JSON_stringify_def strip_prop_def
  get_prop_def not_nullish_def delete_prop_def

lemma statChanged_stats_eq:
  "statChanged (Some (stat_obj s1)) (Some (stat_obj s2)) =
     (dev s1 \<noteq> dev s2 \<or> mode s1 \<noteq> mode s2 \<or> nlink s1 \<noteq> nlink s2 \<or> uid s1 \<noteq> uid s2 \<or>
      gid s1 \<noteq> gid s2 \<or> rdev s1 \<noteq> rdev s2 \<or> blksize s1 \<noteq> blksize s2 \<or> ino s1 \<noteq> ino s2 \<or>
      size_st s1 \<noteq> size_st s2 \<or> blocks s1 \<noteq> blocks s2 \<or> mtime s1 \<noteq> mtime s2 \<or>
      birthtime s1 \<noteq> birthtime s2)"
  by (simp add: statChanged_def stat_obj_def json_defs)

lemma stringify_parse [simp]: "stringify_val (parse_val t) = t"
  by (cases t) simp_all













lemma store_strip_length [simp]: "length (store_strip k a h) = length h"
  by (simp add: store_strip_def store_delete_def)

lemma store_strip_other: "b \<noteq> a \<Longrightarrow> obj_at (store_strip k a h) b = obj_at h b"
  by (simp add: store_strip_def store_delete_def obj_at_def)

lemma store_strip_same:
  "a < length h \<Longrightarrow> obj_at (store_strip k a h) a = strip_prop k (obj_at h a)"
  by (simp add: store_strip_def store_delete_def obj_at_def strip_prop_def)

text \<open>
  Claim C10.  A call of \<open>statChanged\<close> leaves every object that existed before the call
  as it was, the two arguments among them: the properties are deleted from the fresh
  copies only.  In particular \<open>atime\<close> and \<open>ctime\<close> of the arguments are still there.
\<close>

theorem statChanged_store_frame:
  "a < length h \<Longrightarrow> obj_at (snd (statChanged_store h old current)) a = obj_at h a"
  by (simp add: statChanged_store_def alloc_def Let_def store_strip_other)
    (simp add: obj_at_def nth_append)

theorem statChanged_store_frame_witness:
  "(0::nat) < length store0 \<and>
   obj_at (snd (statChanged_store store0 (Some 0) (Some 1))) 0 = stat_obj stat0 \<and>
   get_prop (obj_at (snd (statChanged_store store0 (Some 0) (Some 1))) 0) ''atime''
     = Some (Date (Some 1000))"
proof -
  have len: "(0::nat) < length store0"
    by (simp add: store0_def)
  have "obj_at (snd (statChanged_store store0 (Some 0) (Some 1))) 0 = obj_at store0 0"
    using statChanged_store_frame [OF len] .
  moreover have "obj_at store0 0 = stat_obj stat0"
    by (simp add: store0_def obj_at_def)
  ultimately have eq: "obj_at (snd (statChanged_store store0 (Some 0) (Some 1))) 0 = stat_obj stat0"
    by simp
  have "get_prop (stat_obj stat0) ''atime'' = Some (Date (Some 1000))"
    by (simp add: stat_obj_def stat0_def get_prop_def)
  with len eq show ?thesis by simp
qed

lemma statChanged_store_result:
  "a < length h \<Longrightarrow> b < length h \<Longrightarrow>
   fst (statChanged_store h (Some a) (Some b)) = statChanged (Some (obj_at h a)) (Some (obj_at h b))"
  by (simp add: statChanged_store_def statChanged_def alloc_def Let_def store_strip_other
      store_strip_same)
    (simp add: obj_at_def nth_append)


section \<open>The watcher on concrete runs\<close>

lemmas exec_defs = close_def closeChild_def emit_def log_def
  close_body_def emit_body_def handler_body_def closeChild_body_def
  node_def upd_def

lemmas fixture_defs = dir_world_def file_world_def world0_def dir_node_def child_node_def
  file_node_def new_Watcher_def fuel_def env0_def env_fail_def dir_stat_def stat0_def
  file_opts_def no_opts_def reserved_world_def

lemma phases_BC_unfold:
  "phases_BC n s b =
     (if statChanged (stat_arg (stats_layout (fsenv s)) (b_previousStat (get_batch s b)))
           (stat_arg (stats_layout (fsenv s)) (b_currentStat (get_batch s b))) = False
      then bind (log n s (b_node (get_batch s b)) Debug
                   (DeterminedSame (w_path (node s (b_node (get_batch s b))))))
             (\<lambda>s1. Ok (finish_batch b None s1))
      else
        (case w_stat (node s (b_node (get_batch s b))) of
           None \<Rightarrow> Throw ''TypeError: Cannot read property isDirectory of null'' s
         | Some st \<Rightarrow>
             if isDirectory_stat st = False then
               bind (log n s (b_node (get_batch s b)) Debug
                       (DeterminedUpdate (w_path (node s (b_node (get_batch s b)))))) (\<lambda>s1.
               bind (emit n s1 (b_node (get_batch s b))
                       (Change Update (w_path (node s1 (b_node (get_batch s b))))
                          (b_currentStat (get_batch s b)) (b_previousStat (get_batch s b)))) (\<lambda>s2.
               Ok (finish_batch b None s2)))
             else Ok (enq (PReaddir (b_node (get_batch s b)) b) s)))"
  by (simp add: phases_BC_def Let_def)

lemmas api_defs = Watcher_watch_def setConfig_def watch_def extend_def enq_def deliver_def
  clearTimeout_def watch_after_stat_def watchMethod_def isDirectory_stat_def scan_entry_def
  watchChild_def addListener_def removeListener_def watch_done_def set_key_def
  listener_def notify_watch_def timer_fired_def exists_answered_def stat_refreshed_def
  phases_BC_unfold finish_batch_def phaseA_complete_def get_batch_def upd_batch_def
  date_toString_def obs_def thrown_def states_def children_of_def changes_def
  stat_arg_def statChanged_stats_eq error_list_def stat_of_def state_of_def

text \<open>
  The example world of the file watcher is what the factory and the stat callback leave
  behind.
\<close>

lemma file_world_reached:
  "obs heap file_world_run = Some (heap file_world) \<and>
   obs fswatchers file_world_run = Some (fswatchers file_world) \<and>
   obs fresh file_world_run = Some (fresh file_world) \<and>
   obs pend file_world_run = Some []"
  by (simp add: file_world_run_def exec_defs fixture_defs api_defs)

text \<open>
  Claim C9 (the code differs).  With the reserved sentinel \<^verbatim>\<open>false\<close> in the slot \<^verbatim>\<open>y\<close>,
  \<^verbatim>\<open>closeChild('y', 'deleted')\<close> does not skip: the entry passes the test \<^verbatim>\<open>!= null\<close>, the
  guard \<^verbatim>\<open>if ( watchr )\<close> tests the parent and is true, and \<^verbatim>\<open>false.close(reason)\<close> raises a
  \<^verbatim>\<open>TypeError\<close>.  The world is as before the call.
\<close>

theorem closeChild_reserved_throws:
  "thrown run_close_reserved =
     Some (''TypeError: watcher.close is not a function'', reserved_world)"
  by (simp add: run_close_reserved_def exec_defs fixture_defs api_defs)

text \<open>
  Claim C8 (the code differs).  \<^verbatim>\<open>close('deleted')\<close> on the active directory watcher
  makes it \<open>Deleted\<close>, emits the delete change with the previous stat and then the close
  event, but its child \<^verbatim>\<open>x\<close> is not closed: the loop over the children hands the child
  object, not its name, to \<^verbatim>\<open>closeChild\<close>, which looks up the key \<^verbatim>\<open>[object Object]\<close> and
  finds nothing.  The child stays \<open>Active\<close>, stays in the children map, and its backend
  stays bound.
\<close>

theorem close_deleted_leaves_children:
  "obs states run_dir_close = Some [Deleted, Active] \<and>
   obs (children_of 0) run_dir_close = Some [(''x'', Child 1)] \<and>
   obs fswatchers run_dir_close = Some [(4, 1, ''watch'')] \<and>
   obs changes run_dir_close =
     Some [(0, Change Delete (Some ''/tmp/dir'') None (Some dir_stat)),
           (0, CloseEv (Some ''deleted''))]"
  by (simp add: run_dir_close_def exec_defs fixture_defs api_defs)

text \<open>
  Claim C7 (the code differs).  When \<^verbatim>\<open>exists\<close> reports the directory absent, the batch
  makes the watcher \<open>Deleted\<close>, emits exactly one delete change for its path with the
  previous stat, then the close event, and ends without running the later phases (the
  only pending callback is the completion of the batch).  The child \<^verbatim>\<open>x\<close> is not closed:
  it stays \<open>Active\<close> with its backend bound.
\<close>

theorem absent_path_leaves_children:
  "obs states run_dir_deleted = Some [Deleted, Active] \<and>
   obs (children_of 0) run_dir_deleted = Some [(''x'', Child 1)] \<and>
   obs fswatchers run_dir_deleted = Some [(4, 1, ''watch'')] \<and>
   obs changes run_dir_deleted =
     Some [(0, Change Delete (Some ''/tmp/dir'') None (Some dir_stat)),
           (0, CloseEv (Some ''deleted''))] \<and>
   obs pend run_dir_deleted = Some [(7, PBatchDone 0 None)]"
  by (simp add: run_dir_deleted_def exec_defs fixture_defs api_defs)

text \<open>
  Claim C5 (the code differs).  A timer armed before \<^verbatim>\<open>close()\<close> still fires after it, the
  batch runs on the closed watcher, refreshes its stat and emits an update change after
  the close event.
\<close>

theorem events_after_close:
  "obs changes run_close_then_timer =
     Some [(0, CloseEv None),
           (0, Change Update (Some ''/tmp/a.txt'') (Some (stat0\<lparr>size_st := 20\<rparr>)) (Some stat0))] \<and>
   obs states run_close_then_timer = Some [Closed] \<and>
   obs (stat_of 0) run_close_then_timer = Some (Some (stat0\<lparr>size_st := 20\<rparr>))"
  by (simp add: run_close_then_timer_def exec_defs fixture_defs api_defs)

section \<open>General facts about the watcher\<close>

lemma node_upd:
  "node (upd r f s) r' = (if r' = r \<and> r < length (heap s) then f (node s r) else node s r')"
  by (simp add: node_def upd_def)

lemma heap_len_upd [simp]: "length (heap (upd r f s)) = length (heap s)"
  by (simp add: upd_def)

lemma node_fields [simp]:
  "node (s\<lparr>trace := t\<rparr>) r = node s r"
  "node (s\<lparr>watchers := ws\<rparr>) r = node s r"
  "node (s\<lparr>pend := ps\<rparr>) r = node s r"
  "node (s\<lparr>fresh := k\<rparr>) r = node s r"
  "node (s\<lparr>fswatchers := fw\<rparr>) r = node s r"
  "node (s\<lparr>watchFiles := wfs\<rparr>) r = node s r"
  "node (s\<lparr>batches := bs\<rparr>) r = node s r"
  by (simp_all add: node_def)

lemma node_enq [simp]: "node (enq p s) r = node s r"
  by (simp add: enq_def)

lemma node_upd_batch [simp]: "node (upd_batch b f s) r = node s r"
  by (simp add: upd_batch_def)

lemma node_finish_batch [simp]: "node (finish_batch b e s) r = node s r"
  by (simp add: finish_batch_def)

lemma node_phaseA_complete [simp]: "node (phaseA_complete b e s) r = node s r"
  by (simp add: phaseA_complete_def)

lemma node_subtask_complete [simp]: "node (subtask_complete b e s) r = node s r"
  by (simp add: subtask_complete_def Let_def)

subsection \<open>Outcomes\<close>

lemma holds_Ok [simp]: "holds P (Ok s) = P s"
  and holds_Throw [simp]: "holds P (Throw e s) = P s"
  and holds_OutOfFuel [simp]: "holds P OutOfFuel"
  by (simp_all add: holds_def)

lemma holds_bind:
  assumes "holds P x" and "\<And>s'. P s' \<Longrightarrow> holds P (f s')"
  shows "holds P (bind x f)"
  using assms by (cases x) simp_all

lemma holds_each:
  assumes "P s" and "\<And>s' x. P s' \<Longrightarrow> x \<in> set xs \<Longrightarrow> holds P (f s' x)"
  shows "holds P (each f xs s)"
  using assms
proof (induction xs arbitrary: s)
  case Nil
  then show ?case by simp
next
  case (Cons x xs)
  show ?case
    unfolding each.simps
  proof (rule holds_bind)
    show "holds P (f s x)" using Cons.prems by simp
  next
    fix s' assume "P s'"
    then show "holds P (each f xs s')"
      using Cons.prems by (intro Cons.IH) simp_all
  qed
qed

lemma holds_mono: "holds P x \<Longrightarrow> (\<And>s. P s \<Longrightarrow> Q s) \<Longrightarrow> holds Q x"
  by (cases x) simp_all

subsection \<open>States move forward only\<close>

lemma fwd_refl [simp]: "fwd s s"
  by (simp add: fwd_def ok_trans_def)

lemma ok_trans_trans: "ok_trans a b \<Longrightarrow> ok_trans b c \<Longrightarrow> ok_trans a c"
  by (auto simp: ok_trans_def)

lemma fwd_trans: "fwd a b \<Longrightarrow> fwd b c \<Longrightarrow> fwd a c"
  unfolding fwd_def by (metis ok_trans_trans)

lemma fwd_same:
  "length (heap s') = length (heap s) \<Longrightarrow> (\<And>r. w_state (node s' r) = w_state (node s r)) \<Longrightarrow>
   fwd s s'"
  by (simp add: fwd_def ok_trans_def)

lemma fwd_step:
  "fwd s s' \<Longrightarrow> length (heap s'') = length (heap s') \<Longrightarrow>
   (\<And>r. w_state (node s'' r) = w_state (node s' r)) \<Longrightarrow> fwd s s''"
  by (simp add: fwd_def)

lemma heap_len_simps [simp]:
  "length (heap (enq p s)) = length (heap s)"
  "length (heap (upd_batch b f s)) = length (heap s)"
  "length (heap (finish_batch b e s)) = length (heap s)"
  "length (heap (phaseA_complete b e s)) = length (heap s)"
  "length (heap (subtask_complete b e s)) = length (heap s)"
  by (simp_all add: enq_def upd_batch_def finish_batch_def phaseA_complete_def
      subtask_complete_def Let_def)

lemma fwd_upd_same:
  "fwd s s' \<Longrightarrow> (\<And>w. w_state (f w) = w_state w) \<Longrightarrow> fwd s (upd r f s')"
  by (simp add: fwd_def node_upd)

lemma fwd_close:
  "fwd s s' \<Longrightarrow> w_state (node s r) = Active \<Longrightarrow> st = Closed \<or> st = Deleted \<Longrightarrow>
   fwd s (upd r (\<lambda>w. w\<lparr>w_state := st\<rparr>) s')"
  by (auto simp: fwd_def node_upd ok_trans_def)

lemma holds_fwd_pre: "fwd s s' \<Longrightarrow> holds (fwd s') x \<Longrightarrow> holds (fwd s) x"
  by (erule holds_mono) (rule fwd_trans)

lemma fwd_fields [simp]:
  "fwd s (s'\<lparr>trace := t\<rparr>) = fwd s s'"
  "fwd s (s'\<lparr>watchers := ws\<rparr>) = fwd s s'"
  "fwd s (s'\<lparr>fswatchers := fw\<rparr>) = fwd s s'"
  "fwd s (s'\<lparr>watchFiles := wfs\<rparr>) = fwd s s'"
  by (simp_all add: fwd_def)

lemma fwd_upd_fswatcher [simp]:
  "fwd s (upd r (\<lambda>w. w\<lparr>w_fswatcher := x\<rparr>) s') = fwd s s'"
  by (auto simp: fwd_def node_upd)

lemma emit_body_fwd:
  assumes rec: "\<And>s c. holds (fwd s) (rec s c)"
  shows "holds (fwd s) (emit_body rec s r ev)"
proof -
  have "holds (fwd s)
          (each (\<lambda>s' l. rec (if l_once l
                              then upd r (\<lambda>w. w\<lparr>w_listeners := remove1 l (w_listeners w)\<rparr>) s'
                              else s') (CHandler r ev (l_handler l)))
             ls (s\<lparr>trace := trace s @ [(r, ev)]\<rparr>))" for ls
    by (rule holds_each) (auto intro!: holds_fwd_pre [OF _ rec] fwd_upd_same)
  then show ?thesis
    by (simp add: emit_body_def Let_def)
qed

lemma handler_body_fwd:
  assumes rec: "\<And>s c. holds (fwd s) (rec s c)"
  shows "holds (fwd s) (handler_body rec s r ev h)"
proof (cases h)
  case (RegistryClose p)
  then show ?thesis by (simp add: handler_body_def fwd_same)
next
  case (ChildClose par rel)
  then show ?thesis by (simp add: handler_body_def fwd_upd_same)
next
  case (ChildLog par)
  then show ?thesis by (simp add: handler_body_def rec)
next
  case (ChildChange par rel fullPath)
  have "holds (fwd s) (bind (case ev of
                  Change t p c q \<Rightarrow>
                    if t = Delete \<and> p = Some fullPath
                    then rec s (CCloseChild par (AStr rel) (Some ''deleted'')) else Ok s
                | _ \<Rightarrow> Ok s)
            (\<lambda>s'. rec s' (CEmit par ev)))"
  proof (rule holds_bind)
    show "holds (fwd s) (case ev of
                  Change t p c q \<Rightarrow>
                    if t = Delete \<and> p = Some fullPath
                    then rec s (CCloseChild par (AStr rel) (Some ''deleted'')) else Ok s
                | _ \<Rightarrow> Ok s)"
      by (cases ev) (simp_all add: rec)
  next
    fix s' assume "fwd s s'"
    then show "holds (fwd s) (rec s' (CEmit par ev))"
      by (rule holds_fwd_pre [OF _ rec])
  qed
  with ChildChange show ?thesis by (simp add: handler_body_def)
next
  case (Callback k)
  show ?thesis
  proof (cases ev)
    case (Watching err w)
    show ?thesis
    proof (cases k)
      case (CreatedChild par fullPath b)
      show ?thesis
      proof (cases err)
        case None
        have "holds (fwd s) (bind (rec s (CEmit par (Change Create (Some fullPath) (w_stat (node s w)) None)))
                           (\<lambda>s'. Ok (subtask_complete b None s')))"
          by (rule holds_bind [OF rec]) (simp add: fwd_step)
        with Callback Watching CreatedChild None show ?thesis
          by (simp add: handler_body_def)
      next
        case (Some e)
        with Callback Watching CreatedChild show ?thesis
          by (simp add: handler_body_def fwd_same)
      qed
    qed (use Callback Watching in \<open>simp_all add: handler_body_def fwd_same\<close>)
  qed (use Callback in \<open>simp_all add: handler_body_def\<close>)
next
  case (UserListener i)
  then show ?thesis by (simp add: handler_body_def)
qed

lemma closeChild_body_fwd:
  assumes rec: "\<And>s c. holds (fwd s) (rec s c)"
  shows "holds (fwd s) (closeChild_body rec s r key reason)"
  by (simp add: closeChild_body_def rec split: option.split child.split)

lemma close_body_fwd:
  assumes rec: "\<And>s c. holds (fwd s) (rec s c)"
  shows "holds (fwd s) (close_body rec s r reason)"
proof (cases "w_state (node s r) = Active")
  case False
  then show ?thesis by (simp add: close_body_def)
next
  case True
  have pre: "\<And>s' c. fwd s s' \<Longrightarrow> holds (fwd s) (rec s' c)"
    by (rule holds_fwd_pre [OF _ rec])
  have closing: "\<And>s' st. fwd s s' \<Longrightarrow> st = Closed \<or> st = Deleted \<Longrightarrow>
      fwd s (upd r (\<lambda>w. w\<lparr>w_state := st\<rparr>) s')"
    using True by (rule fwd_close [rotated])
  show ?thesis
    unfolding close_body_def Let_def
    apply (simp add: True)
    apply (rule holds_bind [OF rec])
    apply (rule holds_bind)
     apply (rule holds_each, assumption)
     apply (simp add: pre split: option.split)
    apply (rule holds_bind)
     apply (simp add: pre closing split: option.split)
    apply (erule pre)
    done
qed

lemma exec_fwd: "holds (fwd s) (exec n s c)"
proof (induction n arbitrary: s c)
  case 0
  show ?case by simp
next
  case (Suc n)
  show ?case
    by (cases c) (simp_all add: emit_body_fwd handler_body_fwd closeChild_body_fwd close_body_fwd Suc)
qed


lemma fwd_mono_states: "fwd s s' \<Longrightarrow> mono_states s s'"
  by (simp add: fwd_def mono_states_def states_def list_all2_conv_all_nth node_def)
    (metis (full_types))

lemma close_inactive: "w_state (node s r) \<noteq> Active \<Longrightarrow> close (Suc n) s r reason = Ok s"
  by (simp add: close_def close_body_def)

text \<open>
  Claim C4, as amended.  \<open>close\<close> on a watcher that is not active returns at once and
  changes nothing, so \<open>Closed\<close> and \<open>Deleted\<close> (and \<open>Pending\<close>) are final under \<open>close\<close>;
  and whatever \<open>close\<close>, \<open>closeChild\<close> and the dispatch of an event do, every watcher of
  the world keeps its state or goes from \<open>Active\<close> to \<open>Closed\<close> or \<open>Deleted\<close>.  (A watcher
  leaves \<open>Closed\<close>, \<open>Deleted\<close> or \<open>Pending\<close> only through a successful bind in
  \<open>watchSelf\<close>, which makes it \<open>Active\<close>.)
\<close>

theorem close_keeps_terminal_states:
  "(state_of r s \<noteq> Active \<longrightarrow> close (Suc n) s r reason = Ok s) \<and>
   holds (mono_states s) (close n s r reason) \<and>
   holds (mono_states s) (closeChild n s r key reason) \<and>
   holds (mono_states s) (emit n s r ev)"
proof -
  have "holds (mono_states s) (exec n s c)" for c
    using exec_fwd by (rule holds_mono) (rule fwd_mono_states)
  then show ?thesis
    by (simp add: close_def [of n] closeChild_def emit_def state_of_def close_inactive)
qed


theorem close_keeps_terminal_states_witness:
  "state_of 0 closed_world \<noteq> Active \<and>
   close (Suc 0) closed_world 0 (Some ''deleted'') = Ok closed_world \<and>
   holds (mono_states dir_world) run_dir_close \<and>
   obs states run_dir_close = Some [Deleted, Active]"
proof -
  have "state_of 0 closed_world \<noteq> Active"
    by (simp add: closed_world_def state_of_def node_def upd_def fixture_defs)
  moreover have "holds (mono_states dir_world) run_dir_close"
    using close_keeps_terminal_states [where s = dir_world and r = 0 and n = fuel
        and reason = "Some ''deleted''"]
    by (simp add: run_dir_close_def)
  moreover have "obs states run_dir_close = Some [Deleted, Active]"
    by (simp add: run_dir_close_def exec_defs fixture_defs api_defs)
  ultimately show ?thesis
    using close_keeps_terminal_states [where s = closed_world and r = 0 and n = 0
        and reason = "Some ''deleted''"] by simp
qed

text \<open>
  Claim C4, as stated, fails: a later \<open>watch()\<close> on the closed file watcher closes nothing,
  finds the cached stat, binds the backend again and makes the watcher \<open>Active\<close>.
\<close>

theorem rewatch_leaves_closed:
  "obs states closed_file_world = Some [Closed] \<and> obs states run_rewatch = Some [Active]"
  by (simp add: run_rewatch_def closed_file_world_def exec_defs fixture_defs api_defs)

lemma watchMethod_fail_unchanged:
  "fst (watchMethod s r m) = Some e \<Longrightarrow> snd (watchMethod s r m) = s"
  by (auto simp: watchMethod_def split: if_splits option.splits)

lemma watchSelf_fail_step:
  assumes "bind_error s r m = Some e"
  shows "watchSelf s r errs (m # ms) = watchSelf s r (errs @ [e]) ms"
proof -
  from assms have "watchMethod s r m = (Some e, s)"
    using watchMethod_fail_unchanged [of s r m e]
    by (simp add: bind_error_def prod_eq_iff)
  then show ?thesis by simp
qed

lemma watchSelf_exhausted:
  "\<forall>m\<in>set ms. bind_error s r m \<noteq> None \<Longrightarrow>
   watchSelf s r errs ms = (Some (aggregated (errs @ map (\<lambda>m. the (bind_error s r m)) ms)), s)"
proof (induction ms arbitrary: errs)
  case Nil
  then show ?case by (simp add: aggregated_def)
next
  case (Cons m ms)
  then obtain e where e: "bind_error s r m = Some e" by auto
  with Cons show ?case
    by (simp add: watchSelf_fail_step [OF e] del: watchSelf.simps)
qed

lemma watchSelf_first_success:
  "\<forall>m\<in>set pre. bind_error s r m \<noteq> None \<Longrightarrow> bind_error s r m = None \<Longrightarrow>
   watchSelf s r errs (pre @ m # post) =
     (None, upd r (\<lambda>w. w\<lparr>w_method := Some m, w_state := Active\<rparr>) (snd (watchMethod s r m)))"
proof (induction pre arbitrary: errs)
  case Nil
  then show ?case
    by (cases "watchMethod s r m") (simp add: bind_error_def)
next
  case (Cons a pre)
  then obtain e where e: "bind_error s r a = Some e" by auto
  with Cons show ?case
    by (simp add: watchSelf_fail_step [OF e] del: watchSelf.simps)
qed

text \<open>
  Claim C6, as amended.  \<open>watchSelf\<close> tries the methods in order: it skips every method
  whose bind fails, recording the error, and activates with the first one that binds;
  when every method fails it returns one error whose message lists all recorded
  failures in order, and leaves the world as it was.  Activation then hands this error to
  the \<open>watching\<close> event, and a watcher that was not active keeps its state: a pending
  watcher stays pending.
\<close>

theorem activation_fallback:
  "((\<forall>m\<in>set pre. bind_error s r m \<noteq> None) \<and> bind_error s r meth = None \<longrightarrow>
      watchSelf s r errors (pre @ meth # post) =
        (None, upd r (\<lambda>w. w\<lparr>w_method := Some meth, w_state := Active\<rparr>)
                 (snd (watchMethod s r meth)))) \<and>
   ((\<forall>m\<in>set methods. bind_error s r m \<noteq> None) \<longrightarrow>
      watchSelf s r errors methods =
        (Some (aggregated (errors @ map (\<lambda>m. the (bind_error s r m)) methods)), s)) \<and>
   ((\<forall>m\<in>set (c_preferredMethods (w_config (node s r))). bind_error s r m \<noteq> None) \<longrightarrow>
      watch_after_stat n s r None =
        emit n s r (Watching (Some (aggregated (map (\<lambda>m. the (bind_error s r m))
                       (c_preferredMethods (w_config (node s r)))))) r) \<and>
      (state_of r s \<noteq> Active \<longrightarrow>
         holds (\<lambda>s'. state_of r s' = state_of r s) (watch_after_stat n s r None)))"
proof -
  have third: "watch_after_stat n s r None =
        emit n s r (Watching (Some (aggregated (map (\<lambda>m. the (bind_error s r m))
                       (c_preferredMethods (w_config (node s r)))))) r)"
    if "\<forall>m\<in>set (c_preferredMethods (w_config (node s r))). bind_error s r m \<noteq> None"
    using watchSelf_exhausted [OF that, of "[]"] by (simp add: watch_after_stat_def)
  have keep: "holds (\<lambda>s'. state_of r s' = state_of r s) (emit n s r ev)"
    if "state_of r s \<noteq> Active" for ev
    using exec_fwd [of s n "CEmit r ev"] that
    by (auto simp: emit_def state_of_def fwd_def ok_trans_def elim!: holds_mono)
  show ?thesis
    using watchSelf_first_success [of pre s r meth errors post]
      watchSelf_exhausted [of methods s r errors] third keep
    by (simp del: watchSelf.simps)
qed


theorem activation_fallback_witness:
  "bind_error (pending_world env_fail) 0 ''watch'' = Some ''EPERM'' \<and>
   bind_error (pending_world env_fail) 0 ''watchFile'' = Some ''ENOSYS'' \<and>
   watchSelf (pending_world env_fail) 0 [] [''watch'', ''watchFile''] =
     (Some ''no watch methods left to try, failures are: Error: EPERM,Error: ENOSYS'',
      pending_world env_fail) \<and>
   bind_error (pending_world env_poll) 0 ''watch'' = Some ''EPERM'' \<and>
   bind_error (pending_world env_poll) 0 ''watchFile'' = None \<and>
   fst (watchSelf (pending_world env_poll) 0 [] [''watch'', ''watchFile'']) = None \<and>
   w_method (node (snd (watchSelf (pending_world env_poll) 0 [] [''watch'', ''watchFile''])) 0)
     = Some ''watchFile''"
proof -
  have f1: "bind_error (pending_world env_fail) 0 ''watch'' = Some ''EPERM''"
    and f2: "bind_error (pending_world env_fail) 0 ''watchFile'' = Some ''ENOSYS''"
    and p1: "bind_error (pending_world env_poll) 0 ''watch'' = Some ''EPERM''"
    and p2: "bind_error (pending_world env_poll) 0 ''watchFile'' = None"
    by (simp_all add: bind_error_def watchMethod_def pending_world_def pending_node_def
        world0_def env_fail_def env_poll_def env0_def node_def)
  have "watchSelf (pending_world env_fail) 0 [] [''watch'', ''watchFile''] =
     (Some (aggregated ([] @ map (\<lambda>m. the (bind_error (pending_world env_fail) 0 m))
                               [''watch'', ''watchFile''])), pending_world env_fail)"
    using activation_fallback [where s = "pending_world env_fail" and r = 0 and errors = "[]"
        and methods = "[''watch'', ''watchFile'']"] f1 f2
    by (simp del: watchSelf.simps)
  then have a: "watchSelf (pending_world env_fail) 0 [] [''watch'', ''watchFile''] =
     (Some ''no watch methods left to try, failures are: Error: EPERM,Error: ENOSYS'',
      pending_world env_fail)"
    by (simp add: f1 f2 aggregated_def error_list_def del: watchSelf.simps)
  have "watchSelf (pending_world env_poll) 0 [] ([''watch''] @ ''watchFile'' # []) =
     (None, upd 0 (\<lambda>w. w\<lparr>w_method := Some ''watchFile'', w_state := Active\<rparr>)
              (snd (watchMethod (pending_world env_poll) 0 ''watchFile'')))"
    using activation_fallback [where s = "pending_world env_poll" and r = 0 and errors = "[]"
        and pre = "[''watch'']" and meth = "''watchFile''" and post = "[]"] p1 p2
    by (simp del: watchSelf.simps)
  then have b: "fst (watchSelf (pending_world env_poll) 0 [] [''watch'', ''watchFile'']) = None"
    and c: "w_method (node (snd (watchSelf (pending_world env_poll) 0 [] [''watch'', ''watchFile''])) 0)
     = Some ''watchFile''"
    by (simp_all add: node_upd watchMethod_def pending_world_def world0_def env_poll_def env0_def
        del: watchSelf.simps)
  from f1 f2 p1 p2 a b c show ?thesis by simp
qed

text \<open>
  Claim C6, as stated, fails in its last part: when both backends refuse to bind, the
  watcher is not closed.  It stays \<open>Pending\<close>, and the aggregated error arrives with the
  \<open>watching\<close> event.
\<close>

theorem exhausted_stays_pending:
  "obs states run_all_fail = Some [Pending] \<and>
   obs changes run_all_fail =
     Some [(0, Watching
              (Some ''no watch methods left to try, failures are: Error: EPERM,Error: ENOSYS'') 0)]"
  by (simp add: run_all_fail_def exec_defs fixture_defs api_defs)

subsection \<open>Log events reach log listeners only\<close>

lemma ends_Ok [simp]: "ends P (Ok s) = P s"
  and ends_Throw [simp]: "\<not> ends P (Throw e s)"
  and ends_OutOfFuel [simp]: "ends P OutOfFuel"
  by (simp_all add: ends_def returns_def)




lemma logged_refl [simp]: "logged s s"
  by (simp add: logged_def)


lemma logged_fields [simp]:
  "logged s (s'\<lparr>watchers := ws\<rparr>) = logged s s'"
  "logged s (s'\<lparr>pend := ps\<rparr>) = logged s s'"
  "logged s (s'\<lparr>fresh := k\<rparr>) = logged s s'"
  "logged s (s'\<lparr>batches := bs\<rparr>) = logged s s'"
  "logged s (upd r f s') = logged s s'"
  "logged s (enq p s') = logged s s'"
  "logged s (upd_batch b g s') = logged s s'"
  "logged s (finish_batch b e s') = logged s s'"
  "logged s (phaseA_complete b e s') = logged s s'"
  by (simp_all add: logged_def upd_def enq_def upd_batch_def finish_batch_def phaseA_complete_def)









subsection \<open>A batch that sees no change\<close>

lemma get_batch_simps [simp]:
  "get_batch (enq p s) b = get_batch s b"
  "get_batch (upd r f s) b = get_batch s b"
  "get_batch (s\<lparr>trace := t\<rparr>) b = get_batch s b"
  by (simp_all add: get_batch_def enq_def upd_def)


lemma batches_len_simps [simp]:
  "length (batches (enq p s)) = length (batches s)"
  "length (batches (upd r f s)) = length (batches s)"
  by (simp_all add: enq_def upd_def)

lemma fsenv_simps [simp]:
  "fsenv (enq p s) = fsenv s"
  "fsenv (upd r f s) = fsenv s"
  "fsenv (upd_batch b g s) = fsenv s"
  "fsenv (phaseA_complete b e s) = fsenv s"
  by (simp_all add: enq_def upd_def upd_batch_def phaseA_complete_def finish_batch_def)






lemma readdirs_simps [simp]:
  "readdirs (enq (PStat r k) s) = readdirs s"
  "readdirs (enq (PContinue b) s) = readdirs s"
  "readdirs (enq (PBatchDone b e) s) = readdirs s"
  "readdirs (upd r f s) = readdirs s"
  "readdirs (upd_batch b g s) = readdirs s"
  "readdirs (finish_batch b e s) = readdirs s"
  "readdirs (phaseA_complete b None s) = readdirs s"
  by (simp_all add: readdirs_def enq_def upd_def upd_batch_def finish_batch_def
      phaseA_complete_def)





subsection \<open>Benign events leave the registry alone\<close>




lemma kept_refl [simp]: "wf_listeners s \<Longrightarrow> kept s s"
  by (simp add: kept_def)

lemma quiet_refl [simp]: "wf_listeners s \<Longrightarrow> quiet s s"
  by (simp add: quiet_def)





lemma wf_fields [simp]:
  "wf_listeners (s\<lparr>trace := t\<rparr>) = wf_listeners s"
  "wf_listeners (s\<lparr>pend := ps\<rparr>) = wf_listeners s"
  "wf_listeners (s\<lparr>fresh := k\<rparr>) = wf_listeners s"
  "wf_listeners (s\<lparr>batches := bs\<rparr>) = wf_listeners s"
  "wf_listeners (s\<lparr>watchers := ws\<rparr>) = wf_listeners s"
  "wf_listeners (s\<lparr>fswatchers := fw\<rparr>) = wf_listeners s"
  "wf_listeners (s\<lparr>watchFiles := wfs\<rparr>) = wf_listeners s"
  by (simp_all add: wf_listeners_def)

lemma states_fields [simp]:
  "states (s\<lparr>trace := t\<rparr>) = states s"
  "states (s\<lparr>pend := ps\<rparr>) = states s"
  "states (s\<lparr>fresh := k\<rparr>) = states s"
  "states (s\<lparr>batches := bs\<rparr>) = states s"
  "states (s\<lparr>watchers := ws\<rparr>) = states s"
  "states (s\<lparr>fswatchers := fw\<rparr>) = states s"
  "states (s\<lparr>watchFiles := wfs\<rparr>) = states s"
  by (simp_all add: states_def)

lemma quiet_fields [simp]:
  "quiet s (s'\<lparr>trace := t\<rparr>) = quiet s s'"
  "quiet s (s'\<lparr>pend := ps\<rparr>) = quiet s s'"
  "quiet s (s'\<lparr>fresh := k\<rparr>) = quiet s s'"
  "quiet s (s'\<lparr>batches := bs\<rparr>) = quiet s s'"
  by (simp_all add: quiet_def kept_def)

lemma quiet_bookkeeping [simp]:
  "quiet s (enq p s') = quiet s s'"
  "quiet s (upd_batch b g s') = quiet s s'"
  "quiet s (finish_batch b e s') = quiet s s'"
  "quiet s (phaseA_complete b e s') = quiet s s'"
  "quiet s (subtask_complete b e s') = quiet s s'"
  by (simp_all add: enq_def upd_batch_def finish_batch_def phaseA_complete_def
      subtask_complete_def Let_def)










subsection \<open>The factory\<close>


lemma kept_fields [simp]:
  "kept s (s'\<lparr>trace := t\<rparr>) = kept s s'"
  "kept s (s'\<lparr>pend := ps\<rparr>) = kept s s'"
  "kept s (s'\<lparr>fresh := k\<rparr>) = kept s s'"
  "kept s (s'\<lparr>batches := bs\<rparr>) = kept s s'"
  "kept s (s'\<lparr>fswatchers := fw\<rparr>) = kept s s'"
  "kept s (s'\<lparr>watchFiles := wfs\<rparr>) = kept s s'"
  "kept s (enq p s') = kept s s'"
  by (simp_all add: kept_def enq_def)

















lemma holds_OkD: "holds P x \<Longrightarrow> x = Ok s \<Longrightarrow> P s"
  by simp











end
